theory Spec2Isabelle
  imports Main "HOL-Library.AList" "HOL-Library.Sublist"
begin

section \<open>Python values that the linter rules handle\<close>

text \<open>
  A Python class is identified by its module, its name and its direct bases; two classes
  are the same object exactly when these agree. Only top-level classes are modelled, so
  \<open>__name__\<close> and \<open>__qualname__\<close> coincide.
\<close>

datatype pyclass = PyClass (cls_module: string) (cls_name: string) (cls_bases: "pyclass list")

text \<open>\<open>issubclass(c, d)\<close>: \<open>d\<close> is \<open>c\<close> itself or an ancestor of \<open>c\<close>.\<close>

fun issubclass :: "pyclass \<Rightarrow> pyclass \<Rightarrow> bool" where
  "issubclass (PyClass m n bs) d = (PyClass m n bs = d \<or> list_ex (\<lambda>b. issubclass b d) bs)"

text \<open>\<open>issubclass(c, (d1, ..., dn))\<close> with a tuple of classes.\<close>

definition issubclass_tuple :: "pyclass \<Rightarrow> pyclass list \<Rightarrow> bool" where
  "issubclass_tuple c ds = list_ex (issubclass c) ds"

definition BaseException :: pyclass where
  "BaseException = PyClass ''builtins'' ''BaseException'' []"

definition Exception :: pyclass where
  "Exception = PyClass ''builtins'' ''Exception'' [BaseException]"

definition NameError :: pyclass where
  "NameError = PyClass ''builtins'' ''NameError'' [Exception]"

definition UnboundLocalError :: pyclass where
  "UnboundLocalError = PyClass ''builtins'' ''UnboundLocalError'' [NameError]"

definition AssertionError :: pyclass where
  "AssertionError = PyClass ''builtins'' ''AssertionError'' [Exception]"

definition AttributeError :: pyclass where
  "AttributeError = PyClass ''builtins'' ''AttributeError'' [Exception]"

definition IndexError :: pyclass where
  "IndexError = PyClass ''builtins'' ''IndexError'' [PyClass ''builtins'' ''LookupError'' [Exception]]"

definition KeyError :: pyclass where
  "KeyError = PyClass ''builtins'' ''KeyError'' [PyClass ''builtins'' ''LookupError'' [Exception]]"

definition ValueError :: pyclass where
  "ValueError = PyClass ''builtins'' ''ValueError'' [Exception]"

definition TypeError :: pyclass where
  "TypeError = PyClass ''builtins'' ''TypeError'' [Exception]"

text \<open>
  The values a token or a validator result can be: the literals \<open>None\<close>, booleans,
  integers and strings, and class objects.
\<close>

datatype pyval = PNone | PBool bool | PInt int | PStr string | PType pyclass

text \<open>Python truthiness (\<open>bool(v)\<close>).\<close>

fun truthy :: "pyval \<Rightarrow> bool" where
  "truthy PNone = False"
| "truthy (PBool b) = b"
| "truthy (PInt i) = (i \<noteq> 0)"
| "truthy (PStr s) = (s \<noteq> [])"
| "truthy (PType c) = True"

text \<open>\<open>isinstance(v, str)\<close>.\<close>

fun is_str :: "pyval \<Rightarrow> bool" where
  "is_str (PStr s) = True"
| "is_str v = False"

text \<open>Decimal numerals, for \<open>str\<close> of an integer.\<close>

fun str_nat :: "nat \<Rightarrow> string" where
  "str_nat n =
     (if n < 10 then [''0123456789'' ! n]
      else str_nat (n div 10) @ [''0123456789'' ! (n mod 10)])"

declare str_nat.simps [simp del]

definition str_int :: "int \<Rightarrow> string" where
  "str_int i = (if i < 0 then CHR ''-'' # str_nat (nat (- i)) else str_nat (nat i))"

text \<open>Python's \<open>str(v)\<close> on the modelled values.\<close>

fun py_str :: "pyval \<Rightarrow> string" where
  "py_str PNone = ''None''"
| "py_str (PBool b) = (if b then ''True'' else ''False'')"
| "py_str (PInt i) = str_int i"
| "py_str (PStr s) = s"
| "py_str (PType c) =
     (if cls_module c = ''builtins'' then ''<class '' @ [CHR 0x27] @ cls_name c @ [CHR 0x27] @ ''>''
      else ''<class '' @ [CHR 0x27] @ cls_module c @ ''.'' @ cls_name c @ [CHR 0x27] @ ''>'')"

section \<open>Generators that may fail\<close>

text \<open>
  Every rule is a Python generator. What a consumer observes of it is the sequence of
  diagnostics it yields and, possibly, the exception that ends the iteration early. A
  generator is therefore the list of items yielded, together with the class of the
  exception raised after them, if any.
\<close>

type_synonym 'a generator = "'a list \<times> pyclass option"

definition gen_return :: "'a generator" where
  "gen_return = ([], None)"

definition gen_yield :: "'a \<Rightarrow> 'a generator" where
  "gen_yield x = ([x], None)"

definition gen_raise :: "pyclass \<Rightarrow> 'a generator" where
  "gen_raise e = ([], Some e)"

text \<open>Sequencing: the second part runs only when the first ended without an exception.\<close>

definition gen_seq :: "'a generator \<Rightarrow> 'a generator \<Rightarrow> 'a generator" where
  "gen_seq g h = (case snd g of Some e \<Rightarrow> g | None \<Rightarrow> (fst g @ fst h, snd h))"

text \<open>A \<open>for\<close> loop whose body neither breaks nor returns.\<close>

fun gen_for :: "('a \<Rightarrow> 'b generator) \<Rightarrow> 'a list \<Rightarrow> 'b generator" where
  "gen_for f [] = gen_return"
| "gen_for f (x # xs) = gen_seq (f x) (gen_for f xs)"

section \<open>Data model of the linter\<close>

text \<open>
  Modelled from the spec: the classes \<open>Category\<close>, \<open>Contract\<close>, \<open>Func\<close>, \<open>Token\<close>, \<open>Error\<close>
  and \<open>Example\<close> of the linter are not among the sources. Their fields here are those
  that the rules read, as section 3 of the specification lists them.
\<close>

datatype category = PRE | POST | ENSURE | RAISES | HAS | REASON | EXAMPLE | SAFE | PURE

text \<open>
  An entry of \<open>contract.exceptions\<close> (the class \<open>Contract\<close> is not among the sources;
  the specification speaks of declared identifiers and types): a resolved class, or a
  name kept as a string.
\<close>

datatype declared_exc = ExcType pyclass | ExcName string

text \<open>
  An argument expression of a contract. The rules only ask whether it is a lambda, and
  read a lambda's body and position; \<open>'e\<close> is the expression itself, read by the
  extractors alone.
\<close>

datatype 'e node = Lambda (lam_body: 'e) (lineno: nat) (col_offset: nat) | Expr 'e

text \<open>
  The outcome of \<open>contract.run(*args, **kwargs)\<close>: the validator's value, or the
  exception its evaluation raised.
\<close>

datatype run_result = Returned pyval | Raised pyclass

record ('e, 'ctx) contract =
  c_category :: category
  c_args :: "'e node list"
  c_exceptions :: "declared_exc list"
  c_context :: 'ctx
  c_run :: "pyval list \<Rightarrow> (string \<times> pyval) list \<Rightarrow> run_result"

record ('b, 'e, 'ctx) func =
  f_name :: string
  f_line :: nat
  f_col :: nat
  f_body :: 'b
  f_contracts :: "('e, 'ctx) contract list"

record token =
  t_value :: pyval
  t_line :: nat
  t_col :: nat
  t_marker :: "string option"

record error =
  e_code :: nat
  e_text :: string
  e_value :: pyval
  e_row :: nat
  e_col :: nat

section \<open>Rule._validate\<close>

text \<open>
  \<open>_validate\<close> of a rule with the given code and message. \<open>except NameError\<close>
  catches every subclass of \<open>NameError\<close>; any other exception of the validator leaves
  \<open>_validate\<close> (\<open>Inl\<close>).
\<close>

definition validate ::
  "nat \<Rightarrow> string \<Rightarrow> ('e, 'ctx) contract \<Rightarrow> pyval list \<Rightarrow> (string \<times> pyval) list \<Rightarrow>
   nat \<Rightarrow> nat \<Rightarrow> pyval \<Rightarrow> pyclass + error option" where
  "validate code message contract args kwargs row col val =
     (case c_run contract args kwargs of
        Raised exc \<Rightarrow> if issubclass exc NameError then Inr None else Inl exc
      | Returned result \<Rightarrow>
          if is_str result then
            Inr (Some \<lparr>e_code = code, e_text = py_str result, e_value = val, e_row = row, e_col = col\<rparr>)
          else if \<not> truthy result then
            Inr (Some \<lparr>e_code = code, e_text = message, e_value = val, e_row = row, e_col = col\<rparr>)
          else Inr None)"


section \<open>The extractors and the Has class, which the rules are given\<close>

datatype example_result = UNKNOWN | Result pyval

record example =
  ex_args :: "pyval list"
  ex_kwargs :: "(string \<times> pyval) list"
  ex_result :: example_result

text \<open>
  The rules import their extractors from \<open>deal/linter/_extractors.py\<close>, which is not
  among the sources, so every rule takes them as a parameter: \<open>'b\<close> is a function body,
  \<open>'e\<close> an expression, \<open>'ctx\<close> a resolution context and \<open>'st\<close> the stub manager.
  An extractor is taken as the list of tokens it yields.
\<close>

record ('b, 'e, 'ctx, 'st) extractors =
  get_asserts :: "'b \<Rightarrow> token list"
  get_exceptions :: "'b \<Rightarrow> 'st \<Rightarrow> token list"
  get_markers :: "'b \<Rightarrow> token list"
  get_pre :: "'b \<Rightarrow> 'ctx \<Rightarrow> token list"
  get_value :: "'e node \<Rightarrow> pyval"
  has_returns :: "'b \<Rightarrow> bool"
  get_example :: "'e \<Rightarrow> string \<Rightarrow> example option"

text \<open>
  Modelled from the spec: the class \<open>Has\<close> of \<open>deal/_decorators.py\<close> is not among the
  sources either. An object of it keeps what it was made from: the markers (the declared
  marker set of the specification), the message and the exception. Its
  boolean properties \<open>has_io\<close>, \<open>has_stdout\<close>, ... are a parameter of the marker rule:
  \<open>getattr\<close> maps an attribute name to the property's value, \<open>None\<close> when the class has no
  such attribute.
\<close>

datatype has =
  Has (markers: "pyval list") (has_message: "string option") (has_exception: "pyclass option")

type_synonym has_getattr = "has \<Rightarrow> string \<Rightarrow> bool option"

section \<open>The rules\<close>

text \<open>What a rule does with the outcome of \<open>_validate\<close>: yield the error, if there is one.\<close>

fun yield_error :: "pyclass + error option \<Rightarrow> error generator" where
  "yield_error (Inl exc) = gen_raise exc"
| "yield_error (Inr None) = gen_return"
| "yield_error (Inr (Some err)) = gen_yield err"

subsection \<open>CheckPre (code 11)\<close>

definition CheckPre ::
  "('b, 'e, 'ctx, 'st) extractors \<Rightarrow> ('b, 'e, 'ctx) func \<Rightarrow> error generator" where
  "CheckPre X func =
     (case f_contracts func of
        [] \<Rightarrow> gen_return
      | first # _ \<Rightarrow>
          gen_for (\<lambda>token. gen_yield
              \<lparr>e_code = 11,
               e_text = (case t_marker token of
                           None \<Rightarrow> ''pre contract error''
                         | Some m \<Rightarrow> if m = [] then ''pre contract error'' else m),
               e_value = t_value token, e_row = t_line token, e_col = t_col token\<rparr>)
            (get_pre X (f_body func) (c_context first)))"

subsection \<open>CheckExamples (code 13)\<close>

text \<open>
  In the loop over the contracts, the three \<open>if\<close> statements run one after the other;
  the \<open>continue\<close> of the POST branch, on an UNKNOWN result, skips the ENSURE one.
  \<open>contract.args[0]\<close> raises \<open>IndexError\<close> when there is no argument.
\<close>

definition CheckExamples_check ::
  "('b, 'e, 'ctx, 'st) extractors \<Rightarrow> ('b, 'e, 'ctx) func \<Rightarrow> ('e, 'ctx) contract \<Rightarrow> error generator" where
  "CheckExamples_check X func contract =
     (case c_args contract of
        [] \<Rightarrow> gen_raise IndexError
      | Expr e # _ \<Rightarrow> gen_return
      | Lambda body ln co # _ \<Rightarrow>
          (case get_example X body (f_name func) of
             None \<Rightarrow> gen_return
           | Some example \<Rightarrow>
               gen_for (\<lambda>other.
                 let ensure_part =
                   (if c_category other = ENSURE then
                      (case ex_result example of
                         UNKNOWN \<Rightarrow> gen_return
                       | Result r \<Rightarrow>
                           yield_error (validate 13 ''example violates contract'' other
                             (ex_args example) (AList.update ''result'' r (ex_kwargs example))
                             ln co (PStr ''deal.ensure'')))
                    else gen_return)
                 in
                 gen_seq
                   (if c_category other = PRE then
                      yield_error (validate 13 ''example violates contract'' other
                        (ex_args example) (ex_kwargs example) ln co (PStr ''deal.pre''))
                    else gen_return)
                   (if c_category other = POST then
                      (case ex_result example of
                         UNKNOWN \<Rightarrow> gen_return
                       | Result r \<Rightarrow>
                           gen_seq
                             (yield_error (validate 13 ''example violates contract'' other
                                [r] [] ln co (PStr ''deal.post'')))
                             ensure_part)
                    else ensure_part))
                 (f_contracts func)))"

definition CheckExamples ::
  "('b, 'e, 'ctx, 'st) extractors \<Rightarrow> ('b, 'e, 'ctx) func \<Rightarrow> error generator" where
  "CheckExamples X func =
     gen_for (\<lambda>contract.
         if c_category contract \<noteq> EXAMPLE then gen_return
         else CheckExamples_check X func contract)
       (f_contracts func)"

subsection \<open>CheckRaises (code 21)\<close>

text \<open>Python's \<open>==\<close> between a token value and a declared exception.\<close>

fun declared_eq :: "pyval \<Rightarrow> declared_exc \<Rightarrow> bool" where
  "declared_eq (PType c) (ExcType d) = (c = d)"
| "declared_eq (PStr s) (ExcName n) = (s = n)"
| "declared_eq v d = False"

text \<open>\<open>value in allowed\<close>.\<close>

definition in_allowed :: "pyval \<Rightarrow> declared_exc list \<Rightarrow> bool" where
  "in_allowed v allowed = list_ex (declared_eq v) allowed"

text \<open>\<open>tuple(exc for exc in allowed if type(exc) is not str)\<close>.\<close>

fun allowed_types :: "declared_exc list \<Rightarrow> pyclass list" where
  "allowed_types [] = []"
| "allowed_types (ExcType c # rest) = c # allowed_types rest"
| "allowed_types (ExcName n # rest) = allowed_types rest"

definition CheckRaises_check ::
  "('b, 'e, 'ctx, 'st) extractors \<Rightarrow> ('b, 'e, 'ctx) func \<Rightarrow> ('e, 'ctx) contract \<Rightarrow> 'st \<Rightarrow>
   error generator" where
  "CheckRaises_check X func contract stubs =
     (let allowed = c_exceptions contract;
          types = allowed_types allowed
      in gen_for (\<lambda>token.
           if in_allowed (t_value token) allowed then gen_return
           else
             (case t_value token of
                PType exc \<Rightarrow>
                  if issubclass_tuple exc types then gen_return
                  else gen_yield
                    \<lparr>e_code = 21, e_text = ''raises contract error'',
                     e_value = PStr (py_str (PStr (cls_name exc))),
                     e_row = t_line token, e_col = t_col token\<rparr>
              | exc \<Rightarrow>
                  gen_yield
                    \<lparr>e_code = 21, e_text = ''raises contract error'',
                     e_value = PStr (py_str exc),
                     e_row = t_line token, e_col = t_col token\<rparr>))
           (get_exceptions X (f_body func) stubs))"

definition CheckRaises ::
  "('b, 'e, 'ctx, 'st) extractors \<Rightarrow> ('b, 'e, 'ctx) func \<Rightarrow> 'st \<Rightarrow> error generator" where
  "CheckRaises X func stubs =
     gen_for (\<lambda>contract.
         if c_category contract \<notin> {RAISES, SAFE, PURE} then gen_return
         else CheckRaises_check X func contract stubs)
       (f_contracts func)"

subsection \<open>CheckAsserts (code 31)\<close>



subsection \<open>CheckMarkers (codes 40 to 48)\<close>

definition codes :: "string \<rightharpoonup> nat" where
  "codes = map_of
     [(''global'', 41), (''import'', 42), (''io'', 43), (''read'', 44),
      (''write'', 45), (''stdout'', 46), (''stderr'', 47), (''network'', 48)]"

text \<open>\<open>codes.get(key, default)\<close>.\<close>

definition codes_get :: "string \<Rightarrow> nat \<Rightarrow> nat" where
  "codes_get key dflt = (case codes key of Some c \<Rightarrow> c | None \<Rightarrow> dflt)"

definition CheckMarkers_check ::
  "('b, 'e, 'ctx, 'st) extractors \<Rightarrow> has_getattr \<Rightarrow> ('b, 'e, 'ctx) func \<Rightarrow> has \<Rightarrow>
   error generator" where
  "CheckMarkers_check X getattr func h =
     gen_seq
       (case getattr h ''has_io'' of
          None \<Rightarrow> gen_raise AttributeError
        | Some has_io \<Rightarrow>
            if \<not> has_io \<and> \<not> has_returns X (f_body func) then
              gen_yield
                \<lparr>e_code = the (codes ''io''), e_text = ''missed marker'', e_value = PStr ''io'',
                 e_row = f_line func, e_col = f_col func\<rparr>
            else gen_return)
       (gen_for (\<lambda>token.
            case t_marker token of
              None \<Rightarrow> gen_raise AssertionError
            | Some marker \<Rightarrow>
                if marker = [] then gen_raise AssertionError
                else
                  let has_marker =
                    (case getattr h (''has_'' @ marker) of
                       Some b \<Rightarrow> b
                     | None \<Rightarrow> PStr marker \<in> set (markers h))
                  in if has_marker then gen_return
                     else gen_yield
                       \<lparr>e_code = codes_get marker 40, e_text = ''missed marker'',
                        e_value = PStr marker, e_row = t_line token, e_col = t_col token\<rparr>)
          (get_markers X (f_body func)))"

text \<open>
  The loop of \<open>CheckMarkers.__call__\<close>: it returns as soon as one contract has given a
  marker list.
\<close>

fun CheckMarkers_loop ::
  "('b, 'e, 'ctx, 'st) extractors \<Rightarrow> has_getattr \<Rightarrow> ('b, 'e, 'ctx) func \<Rightarrow>
   ('e, 'ctx) contract list \<Rightarrow> error generator" where
  "CheckMarkers_loop X getattr func [] = gen_return"
| "CheckMarkers_loop X getattr func (contract # rest) =
     (let ms = (if c_category contract = HAS then Some (map (get_value X) (c_args contract))
                else if c_category contract = PURE then Some []
                else None)
      in case ms of
           None \<Rightarrow> CheckMarkers_loop X getattr func rest
         | Some ms \<Rightarrow> CheckMarkers_check X getattr func (Has ms None None))"

definition CheckMarkers ::
  "('b, 'e, 'ctx, 'st) extractors \<Rightarrow> has_getattr \<Rightarrow> ('b, 'e, 'ctx) func \<Rightarrow> error generator" where
  "CheckMarkers X getattr func = CheckMarkers_loop X getattr func (f_contracts func)"

section \<open>The aliases (deal/_aliases.py)\<close>

text \<open>
  Modelled from the spec: the class \<open>Raises\<close> of \<open>deal/_decorators.py\<close>, like \<open>Has\<close>
  above: an object keeps the exceptions (the allowed set of the specification), the
  message and the exception it was made from.
\<close>

datatype raises =
  Raises (exceptions: "pyclass list") (raises_message: "string option")
    (raises_exception: "pyclass option")

text \<open>A contract object, of either class.\<close>

datatype decorator = RaisesObject raises | HasObject has

text \<open>
  The objects that the aliases take and return: a plain function, a function wrapped by a
  contract object, or a contract object still waiting for its function.
\<close>

datatype 'f pyobj = Function 'f | Wrapped decorator "'f pyobj" | Contract decorator

text \<open>
  Modelled from the spec: calling a contract object on a function (\<open>Base.__call__\<close> of
  \<open>deal/_decorators.py\<close>, not among the sources) attaches the contract to the function: the
  result is the function wrapped by that object.
\<close>

definition call_contract :: "decorator \<Rightarrow> 'f pyobj \<Rightarrow> 'f pyobj" where
  "call_contract d func = Wrapped d func"

definition raises :: "pyclass list \<Rightarrow> string option \<Rightarrow> pyclass option \<Rightarrow> decorator" where
  "raises excs message exception = RaisesObject (Raises excs message exception)"

definition has :: "string list \<Rightarrow> string option \<Rightarrow> pyclass option \<Rightarrow> decorator" where
  "has ms message exception = HasObject (Has (map PStr ms) message exception)"

text \<open>
  The keyword arguments that \<open>safe\<close> hands on to \<open>raises\<close>, which accepts \<open>message\<close> and
  \<open>exception\<close>; a keyword that is not given is \<open>None\<close>, the default of \<open>raises\<close>.
\<close>

record kwargs =
  kw_message :: "string option"
  kw_exception :: "pyclass option"

definition no_kwargs :: kwargs where
  "no_kwargs = \<lparr>kw_message = None, kw_exception = None\<rparr>"

definition safe :: "'f pyobj option \<Rightarrow> kwargs \<Rightarrow> 'f pyobj" where
  "safe func kw =
     (case func of
        None \<Rightarrow> Contract (raises [] (kw_message kw) (kw_exception kw))
      | Some f \<Rightarrow> call_contract (raises [] None None) f)"

text \<open>\<open>chain(*contracts)\<close>: the returned wrapper applies the contracts from left to right.\<close>

definition chain_contracts :: "('f pyobj \<Rightarrow> 'f pyobj) list \<Rightarrow> 'f pyobj \<Rightarrow> 'f pyobj" where
  "chain_contracts contracts func = foldl (\<lambda>f contract. contract f) func contracts"

definition pure :: "'f pyobj \<Rightarrow> 'f pyobj" where
  "pure func =
     chain_contracts [call_contract (has [] None None), (\<lambda>f. safe (Some f) no_kwargs)] func"

section \<open>The Transformer\<close>

text \<open>
  Modelled from the spec: the Transformer (\<open>deal/linter/_transformer.py\<close>) is not among
  the sources; only its test is. The specification (section 4.6) has it go through every
  top-level or nested function definition of a module, compare the identifiers declared
  by the RAISES attachments of the definition with the errors raised in its body and,
  when some raised error is undeclared, insert one new attachment line listing the
  undeclared ones directly above the definition and above its existing attachments,
  reproducing all other text exactly.

  A module's source is taken as parsed into its layout, line by line: a line of text, or a
  function definition with its indentation, the attachment lines above it (from top to
  bottom), its \<open>def\<close> line and its body. An attachment line is its text and the
  identifiers it declares (none unless it is of the RAISES category).
\<close>

datatype attachment = Attachment (att_text: string) (att_declares: "string list")

datatype item = Text string | Def string "attachment list" string "item list"

text \<open>The source text of a layout, as its list of lines.\<close>

fun render_item :: "item \<Rightarrow> string list" where
  "render_item (Text s) = [s]"
| "render_item (Def ind atts hdr body) =
     map (\<lambda>a. ind @ att_text a) atts @ [ind @ hdr] @ concat (map render_item body)"

definition render :: "item list \<Rightarrow> string list" where
  "render m = concat (map render_item m)"

text \<open>
  Modelled from the spec: \<open>raised_errors(body)\<close> gives the errors of the statements of the
  body, by an extractor \<open>R\<close> for one statement line; a definition nested in the body raises
  nothing where it stands (throws inside a locally defined callee count only under the
  value-inferring analysis).
\<close>

fun raised_errors :: "(string \<Rightarrow> string list) \<Rightarrow> item list \<Rightarrow> string list" where
  "raised_errors R [] = []"
| "raised_errors R (Text s # rest) = R s @ raised_errors R rest"
| "raised_errors R (Def ind atts hdr body # rest) = raised_errors R rest"

definition declared_raises :: "attachment list \<Rightarrow> string list" where
  "declared_raises atts = concat (map att_declares atts)"

fun join_names :: "string list \<Rightarrow> string" where
  "join_names [] = []"
| "join_names [n] = n"
| "join_names (n # ns) = n @ '', '' @ join_names ns"

text \<open>The synthesized attachment line for a list of undeclared errors.\<close>

definition raises_line :: "string list \<Rightarrow> attachment" where
  "raises_line ids = Attachment (''@deal.raises('' @ join_names ids @ '')'') ids"

definition missing_raises :: "(string \<Rightarrow> string list) \<Rightarrow> attachment list \<Rightarrow> item list \<Rightarrow> string list" where
  "missing_raises R atts body =
     remdups (filter (\<lambda>e. e \<notin> set (declared_raises atts)) (raised_errors R body))"

fun transform_item :: "(string \<Rightarrow> string list) \<Rightarrow> item \<Rightarrow> item" where
  "transform_item R (Text s) = Text s"
| "transform_item R (Def ind atts hdr body) =
     Def ind
       ((if missing_raises R atts body = [] then [] else [raises_line (missing_raises R atts body)])
        @ atts)
       hdr (map (transform_item R) body)"

definition transform :: "(string \<Rightarrow> string list) \<Rightarrow> item list \<Rightarrow> item list" where
  "transform R m = map (transform_item R) m"

text \<open>Every definition of the layout, nested ones included, declares all that its body raises.\<close>

fun complete :: "(string \<Rightarrow> string list) \<Rightarrow> item \<Rightarrow> bool" where
  "complete R (Text s) = True"
| "complete R (Def ind atts hdr body) =
     (list_all (\<lambda>e. e \<in> set (declared_raises atts)) (raised_errors R body)
      \<and> list_all (complete R) body)"

section \<open>Notions of the specification\<close>

subsection \<open>Exception coverage\<close>

text \<open>
  A raised value is covered by a list of declared exceptions when it is one of them
  (direct identity), or when it is a class and a subclass of one of the declared classes.
\<close>

definition covered :: "declared_exc list \<Rightarrow> pyval \<Rightarrow> bool" where
  "covered allowed v =
     (in_allowed v allowed \<or>
      (case v of
         PType c \<Rightarrow> list_ex (\<lambda>d. case d of ExcType t \<Rightarrow> issubclass c t | ExcName n \<Rightarrow> False) allowed
       | _ \<Rightarrow> False))"

text \<open>The diagnostic of code 21 for a token: it carries the class's name, or the string.\<close>

definition raises_error :: "token \<Rightarrow> error" where
  "raises_error t =
     \<lparr>e_code = 21, e_text = ''raises contract error'',
      e_value = PStr (case t_value t of PType c \<Rightarrow> cls_name c | v \<Rightarrow> py_str v),
      e_row = t_line t, e_col = t_col t\<rparr>"

text \<open>
  The rule as the specification words it: the declared exceptions of all RAISES, SAFE and
  PURE contracts are unioned into one allowed set, and a token is flagged exactly when
  that set does not cover it.
\<close>

definition allowed_union :: "('b, 'e, 'ctx) func \<Rightarrow> declared_exc list" where
  "allowed_union func =
     concat (map c_exceptions
       (filter (\<lambda>c. c_category c \<in> {RAISES, SAFE, PURE}) (f_contracts func)))"

definition CheckRaises_union ::
  "('b, 'e, 'ctx, 'st) extractors \<Rightarrow> ('b, 'e, 'ctx) func \<Rightarrow> 'st \<Rightarrow> error generator" where
  "CheckRaises_union X func stubs =
     (map raises_error
        (filter (\<lambda>t. \<not> covered (allowed_union func) (t_value t))
           (get_exceptions X (f_body func) stubs)), None)"

subsection \<open>Marker coverage\<close>

text \<open>The declared marker set of a HAS contract (its listed markers) or a PURE contract (empty).\<close>

definition declared_markers ::
  "('b, 'e, 'ctx, 'st) extractors \<Rightarrow> ('e, 'ctx) contract \<Rightarrow> pyval list" where
  "declared_markers X c = (if c_category c = HAS then map (get_value X) (c_args c) else [])"






definition is_has_or_pure :: "('e, 'ctx) contract \<Rightarrow> bool" where
  "is_has_or_pure c = (c_category c = HAS \<or> c_category c = PURE)"

subsection \<open>Example consistency\<close>

text \<open>
  What re-validating a reconstructed example against one contract of the function gives:
  a PRE contract is run on the example's arguments; a POST contract on the example's
  result; an ENSURE contract on the arguments with the result bound under the keyword
  \<open>result\<close>; POST and ENSURE are skipped when the result is UNKNOWN; a contract of any
  other category is not looked at.
\<close>

definition example_check ::
  "example \<Rightarrow> nat \<Rightarrow> nat \<Rightarrow> ('e, 'ctx) contract \<Rightarrow> pyclass + error option" where
  "example_check ex ln co other =
     (case c_category other of
        PRE \<Rightarrow>
          validate 13 ''example violates contract'' other (ex_args ex) (ex_kwargs ex)
            ln co (PStr ''deal.pre'')
      | POST \<Rightarrow>
          (case ex_result ex of
             UNKNOWN \<Rightarrow> Inr None
           | Result r \<Rightarrow>
               validate 13 ''example violates contract'' other [r] [] ln co (PStr ''deal.post''))
      | ENSURE \<Rightarrow>
          (case ex_result ex of
             UNKNOWN \<Rightarrow> Inr None
           | Result r \<Rightarrow>
               validate 13 ''example violates contract'' other (ex_args ex)
                 (AList.update ''result'' r (ex_kwargs ex)) ln co (PStr ''deal.ensure''))
      | _ \<Rightarrow> Inr None)"

text \<open>The diagnostic of a re-validation, when no exception leaves the validator.\<close>

definition violation :: "pyclass + error option \<Rightarrow> error option" where
  "violation r = (case r of Inl exc \<Rightarrow> None | Inr d \<Rightarrow> d)"

section \<open>Sample inputs\<close>

text \<open>
  Concrete extractors, contracts and functions on which the theorems below are run. A
  body is a number (body 1 returns on every path, the others do not), an expression is
  the literal it denotes, a context is a name.
\<close>

definition sample_extractors :: "(nat, pyval, string, unit) extractors" where
  "sample_extractors =
     \<lparr>get_asserts = (\<lambda>b. [\<lparr>t_value = PBool False, t_line = 3, t_col = 4, t_marker = None\<rparr>,
                          \<lparr>t_value = PInt 0, t_line = 4, t_col = 4, t_marker = None\<rparr>]),
      get_exceptions = (\<lambda>b st.
         [\<lparr>t_value = PType ValueError, t_line = 2, t_col = 4, t_marker = None\<rparr>,
          \<lparr>t_value = PStr ''UnknownError'', t_line = 5, t_col = 8, t_marker = None\<rparr>]),
      get_markers = (\<lambda>b.
         [\<lparr>t_value = PStr ''print'', t_line = 2, t_col = 4, t_marker = Some ''stdout''\<rparr>,
          \<lparr>t_value = PStr ''open'', t_line = 3, t_col = 4, t_marker = Some ''write''\<rparr>,
          \<lparr>t_value = PNone, t_line = 4, t_col = 4, t_marker = Some ''custom''\<rparr>]),
      get_pre = (\<lambda>b ctx.
         if ctx = ''first'' then
           [\<lparr>t_value = PInt (- 1), t_line = 6, t_col = 4, t_marker = Some ''must be positive''\<rparr>,
            \<lparr>t_value = PInt 0, t_line = 7, t_col = 4, t_marker = None\<rparr>]
         else []),
      get_value = (\<lambda>n. case n of Expr v \<Rightarrow> v | Lambda v ln co \<Rightarrow> v),
      has_returns = (\<lambda>b. b = 1),
      get_example = (\<lambda>e name.
         if name = ''double'' then
           Some \<lparr>ex_args = [PInt 2], ex_kwargs = [], ex_result = Result (PInt 4)\<rparr>
         else None)\<rparr>"

definition sample_contract ::
  "category \<Rightarrow> pyval node list \<Rightarrow> declared_exc list \<Rightarrow> string \<Rightarrow>
   (pyval list \<Rightarrow> (string \<times> pyval) list \<Rightarrow> run_result) \<Rightarrow> (pyval, string) contract" where
  "sample_contract cat as excs ctx r =
     \<lparr>c_category = cat, c_args = as, c_exceptions = excs, c_context = ctx, c_run = r\<rparr>"

definition sample_func ::
  "string \<Rightarrow> nat \<Rightarrow> (pyval, string) contract list \<Rightarrow> (nat, pyval, string) func" where
  "sample_func name body cs =
     \<lparr>f_name = name, f_line = 1, f_col = 0, f_body = body, f_contracts = cs\<rparr>"

text \<open>
  A validator on one integer: true on a positive number, the message \<open>zero\<close> on 0,
  false on a negative one; on anything else it refers to an unbound name.
\<close>

definition positive_validator :: "pyval list \<Rightarrow> (string \<times> pyval) list \<Rightarrow> run_result" where
  "positive_validator as kw =
     (case as of
        [PInt i] \<Rightarrow>
          if 0 < i then Returned (PBool True)
          else if i = 0 then Returned (PStr ''zero'')
          else Returned (PBool False)
      | _ \<Rightarrow> Raised UnboundLocalError)"

definition no_validator :: "pyval list \<Rightarrow> (string \<times> pyval) list \<Rightarrow> run_result" where
  "no_validator as kw = Returned (PBool True)"

text \<open>A function with two separate RAISES contracts.\<close>

definition two_raises :: "(nat, pyval, string) func" where
  "two_raises =
     sample_func ''f'' 0
       [sample_contract RAISES [Expr (PType ValueError)] [ExcType ValueError] ''first'' no_validator,
        sample_contract RAISES [Expr (PType KeyError)] [ExcType KeyError] ''second'' no_validator]"

text \<open>
  A function with a precondition, a SAFE contract (no exception declared) and a RAISES
  contract declaring \<open>Exception\<close> and the unresolved name \<open>UnknownError\<close>.
\<close>

definition safe_and_raises :: "(nat, pyval, string) func" where
  "safe_and_raises =
     sample_func ''f'' 0
       [sample_contract PRE [Lambda (PBool True) 1 10] [] ''first'' positive_validator,
        sample_contract SAFE [] [] ''first'' no_validator,
        sample_contract RAISES [Expr (PType Exception), Expr (PStr ''UnknownError'')]
          [ExcType Exception, ExcName ''UnknownError''] ''first'' no_validator]"

text \<open>
  Modelled from the spec: the properties of the \<open>Has\<close> class (\<open>deal/_decorators.py\<close>, not
  among the sources). The specification names eight markers and only ever asks whether a
  marker is declared, so \<open>has_m\<close> exists for these eight names and holds exactly when \<open>m\<close>
  is among the markers given to \<open>Has\<close>.
\<close>

definition marker_names :: "string list" where
  "marker_names =
     [''global'', ''import'', ''io'', ''read'', ''write'', ''stdout'', ''stderr'', ''network'']"

definition sample_getattr :: has_getattr where
  "sample_getattr h attr =
     (if take 4 attr = ''has_'' \<and> drop 4 attr \<in> set marker_names
      then Some (PStr (drop 4 attr) \<in> set (markers h)) else None)"

text \<open>
  A function with a RAISES contract, then \<open>@deal.has('stdout')\<close>, then
  \<open>@deal.has('write', 'custom')\<close>.
\<close>

definition two_has :: "nat \<Rightarrow> (nat, pyval, string) func" where
  "two_has body =
     sample_func ''f'' body
       [sample_contract RAISES [] [] ''first'' no_validator,
        sample_contract HAS [Expr (PStr ''stdout'')] [] ''first'' no_validator,
        sample_contract HAS [Expr (PStr ''write''), Expr (PStr ''custom'')] [] ''first'' no_validator]"

text \<open>
  Validators for a function \<open>double\<close>: one argument of at least ten; a result that is
  one more than twice the argument, read from the keyword \<open>result\<close>, with its own message.
\<close>

definition at_least_ten :: "pyval list \<Rightarrow> (string \<times> pyval) list \<Rightarrow> run_result" where
  "at_least_ten as kw =
     (case as of [PInt i] \<Rightarrow> Returned (PBool (10 \<le> i)) | _ \<Rightarrow> Raised TypeError)"

definition odd_result :: "pyval list \<Rightarrow> (string \<times> pyval) list \<Rightarrow> run_result" where
  "odd_result as kw =
     (case (as, map_of kw ''result'') of
        ([PInt a], Some (PInt r)) \<Rightarrow>
          if r = 2 * a + 1 then Returned (PBool True) else Returned (PStr ''result must be odd'')
      | _ \<Rightarrow> Raised NameError)"

text \<open>
  The function \<open>double\<close> with an example (for which the sample extractor reconstructs
  \<open>double(2) == 4\<close>), a precondition, a postcondition and an ENSURE contract.
\<close>

definition double_func :: "(nat, pyval, string) func" where
  "double_func =
     sample_func ''double'' 1
       [sample_contract EXAMPLE [Lambda PNone 2 14] [] ''first'' no_validator,
        sample_contract PRE [Lambda PNone 3 10] [] ''first'' at_least_ten,
        sample_contract POST [Lambda PNone 4 11] [] ''first'' positive_validator,
        sample_contract ENSURE [Lambda PNone 5 13] [] ''first'' odd_result]"

text \<open>
  Modelled from the spec: on a statement \<open>raise X\<close>, \<open>raised_errors\<close> yields \<open>X\<close>. The
  sample extractor for one line knows this statement only.
\<close>

definition raise_statement :: "string \<Rightarrow> string list" where
  "raise_statement s =
     (let stmt = dropWhile (\<lambda>c. c = CHR '' '') s
      in if take 6 stmt = ''raise '' then [drop 6 stmt] else [])"

section \<open>Generators: basic facts\<close>

lemma gen_seq_return_left: "gen_seq gen_return g = g"
  by (simp add: gen_seq_def gen_return_def)

lemma gen_seq_return_right: "gen_seq g gen_return = g"
  by (cases g) (simp add: gen_seq_def gen_return_def split: option.splits)

lemma gen_for_total:
  "(\<And>x. x \<in> set xs \<Longrightarrow> snd (f x) = None) \<Longrightarrow>
   gen_for f xs = (concat (map (\<lambda>x. fst (f x)) xs), None)"
proof (induction xs)
  case Nil
  show ?case by (simp add: gen_return_def)
next
  case (Cons x xs)
  have fx: "snd (f x) = None" using Cons.prems by simp
  have "gen_for f xs = (concat (map (\<lambda>x. fst (f x)) xs), None)"
    using Cons by simp
  then show ?case
    using fx by (simp add: gen_seq_def)
qed

lemma gen_for_filter_yield:
  "gen_for (\<lambda>x. if P x then gen_return else gen_yield (h x)) xs =
   (map h (filter (\<lambda>x. \<not> P x) xs), None)"
  by (induction xs) (simp_all add: gen_return_def gen_yield_def gen_seq_def)

lemma gen_for_yield: "gen_for (\<lambda>x. gen_yield (h x)) xs = (map h xs, None)"
  by (induction xs) (simp_all add: gen_return_def gen_yield_def gen_seq_def)

section \<open>CheckRaises: one contract\<close>

lemma issubclass_tuple_allowed_types:
  "issubclass_tuple c (allowed_types allowed) =
   list_ex (\<lambda>d. case d of ExcType t \<Rightarrow> issubclass c t | ExcName n \<Rightarrow> False) allowed"
  by (induction allowed rule: allowed_types.induct) (simp_all add: issubclass_tuple_def)

lemma CheckRaises_check_eq:
  "CheckRaises_check X func contract stubs =
   (map raises_error
      (filter (\<lambda>t. \<not> covered (c_exceptions contract) (t_value t))
         (get_exceptions X (f_body func) stubs)), None)"
proof -
  have body: "(\<lambda>token.
           if in_allowed (t_value token) (c_exceptions contract) then gen_return
           else
             (case t_value token of
                PType exc \<Rightarrow>
                  if issubclass_tuple exc (allowed_types (c_exceptions contract)) then gen_return
                  else gen_yield
                    \<lparr>e_code = 21, e_text = ''raises contract error'',
                     e_value = PStr (py_str (PStr (cls_name exc))),
                     e_row = t_line token, e_col = t_col token\<rparr>
              | exc \<Rightarrow>
                  gen_yield
                    \<lparr>e_code = 21, e_text = ''raises contract error'',
                     e_value = PStr (py_str exc),
                     e_row = t_line token, e_col = t_col token\<rparr>))
     = (\<lambda>t. if covered (c_exceptions contract) (t_value t) then gen_return
             else gen_yield (raises_error t))"
    by (rule ext)
       (simp add: covered_def raises_error_def issubclass_tuple_allowed_types split: pyval.splits)
  show ?thesis
    unfolding CheckRaises_check_def Let_def body by (rule gen_for_filter_yield)
qed


section \<open>CheckMarkers: the loop and one check\<close>






lemma CheckMarkers_check_contracts:
  "CheckMarkers_check X G (func\<lparr>f_contracts := cs\<rparr>) h = CheckMarkers_check X G func h"
  by (simp add: CheckMarkers_check_def cong: option.case_cong if_cong)

lemma CheckMarkers_loop_find:
  "CheckMarkers_loop X G func cs =
     (case find is_has_or_pure cs of
        None \<Rightarrow> gen_return
      | Some c \<Rightarrow> CheckMarkers_check X G func (Has (declared_markers X c) None None))"
  by (induction cs) (simp_all add: is_has_or_pure_def declared_markers_def)



lemma CheckMarkers_find:
  "CheckMarkers X G func =
     (case find is_has_or_pure (f_contracts func) of
        None \<Rightarrow> gen_return
      | Some c \<Rightarrow> CheckMarkers_check X G func (Has (declared_markers X c) None None))"
  by (simp add: CheckMarkers_def CheckMarkers_loop_find)


section \<open>CheckExamples: one example\<close>

lemma gen_for_filter:
  "gen_for (\<lambda>x. if \<not> P x then gen_return else f x) xs = gen_for f (filter P xs)"
  by (induction xs) (simp_all add: gen_seq_return_left)

lemma example_step:
  "(let ensure_part =
      (if c_category other = ENSURE then
         (case ex_result example of
            UNKNOWN \<Rightarrow> gen_return
          | Result r \<Rightarrow>
              yield_error (validate 13 ''example violates contract'' other
                (ex_args example) (AList.update ''result'' r (ex_kwargs example))
                ln co (PStr ''deal.ensure'')))
       else gen_return)
    in
    gen_seq
      (if c_category other = PRE then
         yield_error (validate 13 ''example violates contract'' other
           (ex_args example) (ex_kwargs example) ln co (PStr ''deal.pre''))
       else gen_return)
      (if c_category other = POST then
         (case ex_result example of
            UNKNOWN \<Rightarrow> gen_return
          | Result r \<Rightarrow>
              gen_seq
                (yield_error (validate 13 ''example violates contract'' other
                   [r] [] ln co (PStr ''deal.post'')))
                ensure_part)
       else ensure_part))
   = yield_error (example_check example ln co other)"
  by (cases "c_category other"; cases "ex_result example")
     (simp_all add: example_check_def gen_seq_return_left gen_seq_return_right)

lemma gen_for_yield_error:
  "list_all (\<lambda>x. \<not> isl (f x)) xs \<Longrightarrow>
   gen_for (\<lambda>x. yield_error (f x)) xs = (List.map_filter (\<lambda>x. violation (f x)) xs, None)"
proof (induction xs)
  case Nil
  show ?case by (simp add: gen_return_def List.map_filter_simps)
next
  case (Cons x xs)
  then obtain d where d: "f x = Inr d" by (cases "f x") auto
  have "gen_for (\<lambda>x. yield_error (f x)) xs = (List.map_filter (\<lambda>x. violation (f x)) xs, None)"
    using Cons by simp
  then show ?case
    by (cases d)
       (simp_all add: d violation_def List.map_filter_simps gen_seq_def gen_return_def gen_yield_def)
qed

lemma CheckExamples_check_eq:
  assumes "c_args contract = Lambda body ln co # others"
    and "get_example X body (f_name func) = Some ex"
  shows "CheckExamples_check X func contract =
           gen_for (\<lambda>other. yield_error (example_check ex ln co other)) (f_contracts func)"
  unfolding CheckExamples_check_def using assms by (simp add: example_step)

section \<open>The Transformer: fixed points and preserved text\<close>

lemma raised_errors_transform:
  "raised_errors R (map (transform_item R) body) = raised_errors R body"
  by (induction R body rule: raised_errors.induct) simp_all

lemma missing_raises_empty:
  "(missing_raises R atts body = []) =
   list_all (\<lambda>e. e \<in> set (declared_raises atts)) (raised_errors R body)"
  by (simp add: missing_raises_def filter_empty_conv list_all_iff)

lemma complete_fixed: "complete R i \<Longrightarrow> transform_item R i = i"
proof (induction R i rule: transform_item.induct)
  case (1 R s)
  show ?case by simp
next
  case (2 R ind atts hdr body)
  have "map (transform_item R) body = body"
    using 2 by (simp add: list_all_iff map_idI)
  then show ?case
    using "2.prems" by (simp add: missing_raises_empty)
qed

lemma complete_transform: "complete R (transform_item R i)"
proof (induction R i rule: transform_item.induct)
  case (1 R s)
  show ?case by simp
next
  case (2 R ind atts hdr body)
  have nested: "list_all (complete R) (map (transform_item R) body)"
    using 2 by (simp add: list_all_iff)
  have "e \<in> set (declared_raises
          ((if missing_raises R atts body = [] then []
            else [raises_line (missing_raises R atts body)]) @ atts))"
    if "e \<in> set (raised_errors R body)" for e
  proof (cases "e \<in> set (declared_raises atts)")
    case True
    then show ?thesis by (simp add: declared_raises_def)
  next
    case False
    then have "e \<in> set (missing_raises R atts body)"
      using that by (simp add: missing_raises_def)
    then show ?thesis
      by (auto simp: declared_raises_def raises_line_def)
  qed
  then show ?case
    using nested by (simp add: raised_errors_transform list_all_iff)
qed

lemma subseq_concat_map:
  "(\<And>x. x \<in> set xs \<Longrightarrow> subseq (f x) (g x)) \<Longrightarrow>
   subseq (concat (map f xs)) (concat (map g xs))"
  by (induction xs) (simp_all add: list_emb_append_mono)

lemma subseq_render_item: "subseq (render_item i) (render_item (transform_item R i))"
proof (induction R i rule: transform_item.induct)
  case (1 R s)
  show ?case by simp
next
  case (2 R ind atts hdr body)
  have "subseq (concat (map render_item body))
          (concat (map (\<lambda>x. render_item (transform_item R x)) body))"
    using 2 by (intro subseq_concat_map) simp
  then have body: "subseq ([ind @ hdr] @ concat (map render_item body))
          ([ind @ hdr] @ concat (map (\<lambda>x. render_item (transform_item R x)) body))"
    by simp
  have atts: "subseq (map (\<lambda>a. ind @ att_text a) atts)
          (map (\<lambda>a. ind @ att_text a)
             ((if missing_raises R atts body = [] then []
               else [raises_line (missing_raises R atts body)]) @ atts))"
    by (simp add: subseq_Cons')
  show ?case
    using list_emb_append_mono [OF atts body] by (simp add: comp_def)
qed

lemma subseq_render: "subseq (render m) (render (transform R m))"
  unfolding render_def transform_def map_map comp_def
  by (rule subseq_concat_map) (rule subseq_render_item)

section \<open>Claims\<close>

text \<open>
  Claim C1, as amended. The exception rule (code 21) checks every RAISES, SAFE and PURE
  contract of the function on its own, in declaration order: for each such contract it
  yields one diagnostic for each extracted raised-error token that this contract's own
  declared exceptions do not cover (by identity, or as a subclass of a declared class),
  carrying the class's name, or the unresolved name, as its value. The declared sets of
  different contracts are not unioned.
\<close>

theorem CheckRaises_per_contract:
  "CheckRaises X func stubs =
   (concat (map (\<lambda>c. map raises_error
                   (filter (\<lambda>t. \<not> covered (c_exceptions c) (t_value t))
                      (get_exceptions X (f_body func) stubs)))
       (filter (\<lambda>c. c_category c \<in> {RAISES, SAFE, PURE}) (f_contracts func))), None)"
proof -
  have "CheckRaises X func stubs =
        (concat (map (\<lambda>c. fst (if c_category c \<notin> {RAISES, SAFE, PURE} then gen_return
                               else CheckRaises_check X func c stubs)) (f_contracts func)), None)"
    unfolding CheckRaises_def
    by (rule gen_for_total) (simp add: gen_return_def CheckRaises_check_eq)
  also have "concat (map (\<lambda>c. fst (if c_category c \<notin> {RAISES, SAFE, PURE} then gen_return
                               else CheckRaises_check X func c stubs)) cs)
     = concat (map (\<lambda>c. map raises_error
                   (filter (\<lambda>t. \<not> covered (c_exceptions c) (t_value t))
                      (get_exceptions X (f_body func) stubs)))
       (filter (\<lambda>c. c_category c \<in> {RAISES, SAFE, PURE}) cs))" for cs
    by (induction cs) (simp_all add: gen_return_def CheckRaises_check_eq)
  finally show ?thesis .
qed

theorem CheckRaises_per_contract_witness:
  "CheckRaises sample_extractors safe_and_raises () =
     ([\<lparr>e_code = 21, e_text = ''raises contract error'', e_value = PStr ''ValueError'',
        e_row = 2, e_col = 4\<rparr>,
       \<lparr>e_code = 21, e_text = ''raises contract error'', e_value = PStr ''UnknownError'',
        e_row = 5, e_col = 8\<rparr>], None)"
  by (simp add: CheckRaises_per_contract safe_and_raises_def sample_func_def sample_contract_def
      sample_extractors_def covered_def in_allowed_def raises_error_def
      ValueError_def Exception_def BaseException_def)

text \<open>
  The claim as the specification words it fails on a function with two RAISES contracts,
  one declaring \<open>ValueError\<close> and one declaring \<open>KeyError\<close>, whose body raises \<open>ValueError\<close>
  and an unresolved \<open>UnknownError\<close>: the union covers \<open>ValueError\<close>, yet the second contract
  flags it.
\<close>

theorem CheckRaises_union_counterexample:
  "CheckRaises sample_extractors two_raises () \<noteq> CheckRaises_union sample_extractors two_raises ()
   \<and> covered (allowed_union two_raises) (PType ValueError)
   \<and> CheckRaises sample_extractors two_raises () =
     ([\<lparr>e_code = 21, e_text = ''raises contract error'', e_value = PStr ''UnknownError'',
        e_row = 5, e_col = 8\<rparr>,
       \<lparr>e_code = 21, e_text = ''raises contract error'', e_value = PStr ''ValueError'',
        e_row = 2, e_col = 4\<rparr>,
       \<lparr>e_code = 21, e_text = ''raises contract error'', e_value = PStr ''UnknownError'',
        e_row = 5, e_col = 8\<rparr>], None)"
  by (simp add: CheckRaises_union_def allowed_union_def CheckRaises_def CheckRaises_check_eq
      gen_seq_def gen_return_def two_raises_def sample_func_def sample_contract_def
      sample_extractors_def covered_def in_allowed_def raises_error_def
      ValueError_def KeyError_def Exception_def BaseException_def)

text \<open>
  Claim C2. Whatever rule calls \<open>_validate\<close>: when the validator fails on a name that
  cannot be resolved (\<open>NameError\<close> or a subclass of it), no diagnostic is produced; when
  it returns a string, the diagnostic carries that string as its message; when it returns
  another falsy value, the diagnostic carries the rule's own message; when it returns a
  truthy value that is not a string, no diagnostic is produced.
\<close>

theorem validate_outcomes:
  "(c_run contract args kwargs = Raised exc \<and> issubclass exc NameError \<longrightarrow>
      validate code message contract args kwargs row col val = Inr None)
   \<and> (c_run contract args kwargs = Returned (PStr s) \<longrightarrow>
      validate code message contract args kwargs row col val =
        Inr (Some \<lparr>e_code = code, e_text = s, e_value = val, e_row = row, e_col = col\<rparr>))
   \<and> (c_run contract args kwargs = Returned v \<and> \<not> is_str v \<and> \<not> truthy v \<longrightarrow>
      validate code message contract args kwargs row col val =
        Inr (Some \<lparr>e_code = code, e_text = message, e_value = val, e_row = row, e_col = col\<rparr>))
   \<and> (c_run contract args kwargs = Returned v \<and> \<not> is_str v \<and> truthy v \<longrightarrow>
      validate code message contract args kwargs row col val = Inr None)"
  by (simp add: validate_def)

theorem validate_outcomes_witness:
  "validate 12 ''post contract error''
     (sample_contract POST [] [] ''first'' positive_validator) [] [] 3 4 (PStr ''x'') = Inr None
   \<and> validate 12 ''post contract error''
     (sample_contract POST [] [] ''first'' positive_validator) [PInt 0] [] 3 4 (PStr ''0'') =
       Inr (Some \<lparr>e_code = 12, e_text = ''zero'', e_value = PStr ''0'', e_row = 3, e_col = 4\<rparr>)
   \<and> validate 12 ''post contract error''
     (sample_contract POST [] [] ''first'' positive_validator) [PInt (- 1)] [] 3 4 (PStr ''-1'') =
       Inr (Some \<lparr>e_code = 12, e_text = ''post contract error'', e_value = PStr ''-1'',
                  e_row = 3, e_col = 4\<rparr>)
   \<and> validate 12 ''post contract error''
     (sample_contract POST [] [] ''first'' positive_validator) [PInt 1] [] 3 4 (PStr ''1'') = Inr None"
proof -
  let ?c = "sample_contract POST [] [] ''first'' positive_validator"
  have r1: "c_run ?c [] [] = Raised UnboundLocalError \<and> issubclass UnboundLocalError NameError"
    by (simp add: sample_contract_def positive_validator_def UnboundLocalError_def NameError_def)
  have r2: "c_run ?c [PInt 0] [] = Returned (PStr ''zero'')"
    by (simp add: sample_contract_def positive_validator_def)
  have r3: "c_run ?c [PInt (- 1)] [] = Returned (PBool False) \<and> \<not> is_str (PBool False)
            \<and> \<not> truthy (PBool False)"
    by (simp add: sample_contract_def positive_validator_def)
  have r4: "c_run ?c [PInt 1] [] = Returned (PBool True) \<and> \<not> is_str (PBool True)
            \<and> truthy (PBool True)"
    by (simp add: sample_contract_def positive_validator_def)
  note v1 = validate_outcomes [of ?c "[]" "[]" UnboundLocalError 12 "''post contract error''" 3 4
      "PStr ''x''", THEN conjunct1, rule_format, OF r1]
  note v2 = validate_outcomes [of ?c "[PInt 0]" "[]" _ 12 "''post contract error''" 3 4
      "PStr ''0''" "''zero''", THEN conjunct2, THEN conjunct1, rule_format, OF r2]
  note v3 = validate_outcomes [of ?c "[PInt (- 1)]" "[]" _ 12 "''post contract error''" 3 4
      "PStr ''-1''" _ "PBool False", THEN conjunct2, THEN conjunct2, THEN conjunct1,
      rule_format, OF r3]
  note v4 = validate_outcomes [of ?c "[PInt 1]" "[]" _ 12 "''post contract error''" 3 4
      "PStr ''1''" _ "PBool True", THEN conjunct2, THEN conjunct2, THEN conjunct2,
      rule_format, OF r4]
  from v1 v2 v3 v4 show ?thesis by blast
qed





text \<open>
  Claim C5. The example rule (code 13) runs its check for every EXAMPLE contract of the
  function, in order. For an EXAMPLE contract whose first argument is a lambda from which
  an example is reconstructed, the check goes through all contracts of the function and
  re-validates the example against each PRE contract (on the example's arguments), each
  POST contract (on the example's result) and each ENSURE contract (on the arguments, with
  the result under the keyword \<open>result\<close>), skipping POST and ENSURE when the result is
  UNKNOWN, and yields the diagnostic of each violated contract; an exception other than
  \<open>NameError\<close> from a validator ends the check. When no such exception occurs, the
  diagnostics are exactly those of the violated contracts, one each, in order.
\<close>

theorem CheckExamples_revalidate:
  "CheckExamples X func =
     gen_for (CheckExamples_check X func) (filter (\<lambda>c. c_category c = EXAMPLE) (f_contracts func))
   \<and> (\<forall>body ln co others ex.
         c_args contract = Lambda body ln co # others \<and> get_example X body (f_name func) = Some ex \<longrightarrow>
           CheckExamples_check X func contract =
             gen_for (\<lambda>other. yield_error (example_check ex ln co other)) (f_contracts func)
           \<and> (list_all (\<lambda>other. \<not> isl (example_check ex ln co other)) (f_contracts func) \<longrightarrow>
                CheckExamples_check X func contract =
                  (List.map_filter (\<lambda>other. violation (example_check ex ln co other))
                     (f_contracts func), None)))"
proof -
  have call: "CheckExamples X func =
     gen_for (CheckExamples_check X func) (filter (\<lambda>c. c_category c = EXAMPLE) (f_contracts func))"
    unfolding CheckExamples_def by (rule gen_for_filter)
  show ?thesis
    using call by (auto simp: CheckExamples_check_eq gen_for_yield_error)
qed

theorem CheckExamples_revalidate_witness:
  "CheckExamples sample_extractors double_func =
     ([\<lparr>e_code = 13, e_text = ''example violates contract'', e_value = PStr ''deal.pre'',
        e_row = 2, e_col = 14\<rparr>,
       \<lparr>e_code = 13, e_text = ''result must be odd'', e_value = PStr ''deal.ensure'',
        e_row = 2, e_col = 14\<rparr>], None)"
proof -
  let ?e = "sample_contract EXAMPLE [Lambda PNone 2 14] [] ''first'' no_validator"
  let ?ex = "\<lparr>ex_args = [PInt 2], ex_kwargs = [], ex_result = Result (PInt 4)\<rparr>"
  have pattern: "c_args ?e = Lambda PNone 2 14 # []
      \<and> get_example sample_extractors PNone (f_name double_func) = Some ?ex"
    by (simp add: sample_contract_def sample_extractors_def double_func_def sample_func_def)
  have quiet: "list_all (\<lambda>other. \<not> isl (example_check ?ex 2 14 other)) (f_contracts double_func)"
    by (simp add: double_func_def sample_func_def sample_contract_def example_check_def
        validate_def at_least_ten_def positive_validator_def odd_result_def)
  have examples: "filter (\<lambda>c. c_category c = EXAMPLE) (f_contracts double_func) = [?e]"
    by (simp add: double_func_def sample_func_def sample_contract_def)
  note t = CheckExamples_revalidate [where X = sample_extractors and func = double_func
      and contract = ?e]
  note call = t [THEN conjunct1, unfolded examples]
  note check = t [THEN conjunct2, rule_format, OF pattern, THEN conjunct2, rule_format, OF quiet]
  have "CheckExamples sample_extractors double_func =
        (List.map_filter (\<lambda>other. violation (example_check ?ex 2 14 other))
           (f_contracts double_func), None)"
    unfolding call by (simp add: check gen_seq_return_right)
  then show ?thesis
    by (simp add: double_func_def sample_func_def sample_contract_def example_check_def
        validate_def violation_def List.map_filter_simps
        at_least_ten_def positive_validator_def odd_result_def)
qed

text \<open>
  Claim C6. The precondition call-site rule (code 11) yields nothing for a function with
  an empty contract list; for a function with at least one contract, its diagnostics are
  those of the tokens that \<open>get_pre\<close> extracts from the body under the resolution context
  of the first contract of the list, whatever the other contracts are.
\<close>

theorem CheckPre_first_context:
  "(f_contracts func = [] \<longrightarrow> CheckPre X func = ([], None)) \<and>
   (\<forall>first rest. f_contracts func = first # rest \<longrightarrow>
      CheckPre X func =
        (map (\<lambda>t. \<lparr>e_code = 11,
                    e_text = (if t_marker t = None \<or> t_marker t = Some [] then ''pre contract error''
                              else the (t_marker t)),
                    e_value = t_value t, e_row = t_line t, e_col = t_col t\<rparr>)
           (get_pre X (f_body func) (c_context first)), None))"
proof -
  have "(case t_marker t of None \<Rightarrow> ''pre contract error''
         | Some m \<Rightarrow> if m = [] then ''pre contract error'' else m)
      = (if t_marker t = None \<or> t_marker t = Some [] then ''pre contract error''
         else the (t_marker t))" for t :: token
    by (cases "t_marker t") simp_all
  then show ?thesis
    by (simp add: CheckPre_def gen_return_def gen_for_yield)
qed

theorem CheckPre_first_context_witness:
  "CheckPre sample_extractors (sample_func ''f'' 0 []) = ([], None)
   \<and> CheckPre sample_extractors two_raises =
       ([\<lparr>e_code = 11, e_text = ''must be positive'', e_value = PInt (- 1), e_row = 6, e_col = 4\<rparr>,
         \<lparr>e_code = 11, e_text = ''pre contract error'', e_value = PInt 0, e_row = 7, e_col = 4\<rparr>],
        None)"
proof -
  have a: "f_contracts (sample_func ''f'' 0 []) = []"
    by (simp add: sample_func_def)
  have b: "f_contracts two_raises =
      sample_contract RAISES [Expr (PType ValueError)] [ExcType ValueError] ''first'' no_validator
      # [sample_contract RAISES [Expr (PType KeyError)] [ExcType KeyError] ''second'' no_validator]"
    by (simp add: two_raises_def sample_func_def)
  note empty = CheckPre_first_context [of "sample_func ''f'' 0 []" sample_extractors,
      THEN conjunct1, rule_format, OF a]
  note first = CheckPre_first_context [of two_raises sample_extractors,
      THEN conjunct2, rule_format, OF b]
  show ?thesis
    unfolding empty first
    by (simp add: two_raises_def sample_func_def sample_contract_def sample_extractors_def)
qed

text \<open>
  Claim C7. Applying the alias \<open>safe\<close> to a function is applying \<open>raises()\<close>, with no
  exception, to it, and \<open>safe\<close> called with keywords only is \<open>raises\<close> with no exception
  and these keywords. Applying \<open>pure\<close> to a function is applying \<open>has()\<close>, with no
  marker, and then \<open>safe\<close>. In the linter, the marker rule checks a PURE contract against
  \<open>Has()\<close>, as it does a HAS contract without arguments, and the exception rule treats a
  SAFE or PURE contract like a RAISES contract with the same declared exceptions.
\<close>

theorem safe_pure_aliases:
  "safe (Some f) kw = call_contract (raises [] None None) f
   \<and> safe None kw = Contract (raises [] (kw_message kw) (kw_exception kw))
   \<and> pure f = safe (Some (call_contract (has [] None None) f)) no_kwargs
   \<and> pure f = Wrapped (RaisesObject (Raises [] None None)) (Wrapped (HasObject (Has [] None None)) f)
   \<and> CheckMarkers X G (func\<lparr>f_contracts := [c\<lparr>c_category := PURE\<rparr>]\<rparr>) =
       CheckMarkers_check X G func (Has [] None None)
   \<and> CheckMarkers X G (func\<lparr>f_contracts := [c\<lparr>c_category := PURE\<rparr>]\<rparr>) =
       CheckMarkers X G (func\<lparr>f_contracts := [c\<lparr>c_category := HAS, c_args := []\<rparr>]\<rparr>)
   \<and> (c_category c = SAFE \<or> c_category c = PURE \<longrightarrow>
        CheckRaises X (func\<lparr>f_contracts := [c]\<rparr>) stubs =
        CheckRaises X (func\<lparr>f_contracts := [c\<lparr>c_category := RAISES\<rparr>]\<rparr>) stubs)"
proof -
  have aliases: "safe (Some f) kw = call_contract (raises [] None None) f"
    "safe None kw = Contract (raises [] (kw_message kw) (kw_exception kw))"
    "pure f = safe (Some (call_contract (has [] None None) f)) no_kwargs"
    "pure f = Wrapped (RaisesObject (Raises [] None None)) (Wrapped (HasObject (Has [] None None)) f)"
    by (simp_all add: safe_def pure_def chain_contracts_def call_contract_def raises_def has_def)
  have markers: "CheckMarkers X G (func\<lparr>f_contracts := [c\<lparr>c_category := PURE\<rparr>]\<rparr>) =
       CheckMarkers_check X G func (Has [] None None)"
    "CheckMarkers X G (func\<lparr>f_contracts := [c\<lparr>c_category := HAS, c_args := []\<rparr>]\<rparr>) =
       CheckMarkers_check X G func (Has [] None None)"
    by (simp_all add: CheckMarkers_def CheckMarkers_check_contracts)
  have raises: "CheckRaises X (func\<lparr>f_contracts := [c]\<rparr>) stubs =
        CheckRaises X (func\<lparr>f_contracts := [c\<lparr>c_category := RAISES\<rparr>]\<rparr>) stubs"
    if "c_category c = SAFE \<or> c_category c = PURE"
    using that by (auto simp: CheckRaises_def CheckRaises_check_eq)
  from aliases markers raises show ?thesis by simp
qed

theorem safe_pure_aliases_witness:
  "pure (Function ''f'') =
     Wrapped (RaisesObject (Raises [] None None))
       (Wrapped (HasObject (Has [] None None)) (Function ''f''))
   \<and> safe (Some (Function ''f'')) no_kwargs =
       Wrapped (RaisesObject (Raises [] None None)) (Function ''f'')
   \<and> CheckRaises sample_extractors
        (sample_func ''f'' 0 [sample_contract SAFE [] [] ''first'' no_validator]) () =
      CheckRaises sample_extractors
        (sample_func ''f'' 0 [sample_contract RAISES [] [] ''first'' no_validator]) ()"
proof -
  let ?c = "sample_contract SAFE [] [] ''first'' no_validator"
  have cat: "c_category ?c = SAFE \<or> c_category ?c = PURE"
    by (simp add: sample_contract_def)
  have f: "(sample_func ''f'' 0 [])\<lparr>f_contracts := [?c]\<rparr> = sample_func ''f'' 0 [?c]"
    "(sample_func ''f'' 0 [])\<lparr>f_contracts := [?c\<lparr>c_category := RAISES\<rparr>]\<rparr> =
       sample_func ''f'' 0 [sample_contract RAISES [] [] ''first'' no_validator]"
    by (simp_all add: sample_func_def sample_contract_def)
  note t = safe_pure_aliases [where f = "Function ''f''" and kw = no_kwargs and c = ?c
      and X = sample_extractors and func = "sample_func ''f'' 0 []" and stubs = "()"]
  note p = t [THEN conjunct2, THEN conjunct2, THEN conjunct2, THEN conjunct1]
  note s = t [THEN conjunct1, unfolded call_contract_def raises_def]
  note r = t [THEN conjunct2, THEN conjunct2, THEN conjunct2, THEN conjunct2, THEN conjunct2,
      THEN conjunct2, rule_format, OF cat, unfolded f]
  from p s r show ?thesis by (intro conjI)
qed

text \<open>
  Claim C8. For the Transformer as the specification describes it: on a function without
  attachments whose body raises one error, in a module where nothing else is missing, the
  output is the input with one new line \<open>@deal.raises(e)\<close>, at the function's
  indentation, directly above the definition, and every other line as it was; on a module
  whose functions declare all that they raise (or raise nothing) the output is the input;
  transforming the output again changes nothing; and in every case the lines of the input
  all remain, in their order.
\<close>

theorem transform_round_trip:
  "(list_all (complete R) before \<and> list_all (complete R) body \<and> list_all (complete R) after
      \<and> raised_errors R body = [e] \<longrightarrow>
      render (transform R (before @ Def ind [] hdr body # after)) =
        render before @ [ind @ ''@deal.raises('' @ e @ '')''] @ render (Def ind [] hdr body # after))
   \<and> (list_all (complete R) m \<longrightarrow> transform R m = m)
   \<and> transform R (transform R m) = transform R m
   \<and> subseq (render m) (render (transform R m))"
proof -
  have fixed: "transform R xs = xs" if "list_all (complete R) xs" for xs
    using that by (simp add: transform_def list_all_iff map_idI complete_fixed)
  have idem: "transform R (transform R m) = transform R m"
    by (simp add: transform_def complete_fixed complete_transform)
  have insert: "render (transform R (before @ Def ind [] hdr body # after)) =
        render before @ [ind @ ''@deal.raises('' @ e @ '')''] @ render (Def ind [] hdr body # after)"
    if "list_all (complete R) before" "list_all (complete R) body" "list_all (complete R) after"
      "raised_errors R body = [e]"
  proof -
    have "transform_item R (Def ind [] hdr body) = Def ind [raises_line [e]] hdr body"
      using fixed [OF that(2)] that(4)
      by (simp add: missing_raises_def declared_raises_def transform_def)
    then have "transform R (before @ Def ind [] hdr body # after) =
        before @ Def ind [raises_line [e]] hdr body # after"
      using fixed [OF that(1)] fixed [OF that(3)] by (simp add: transform_def)
    then show ?thesis
      by (simp add: render_def raises_line_def)
  qed
  from fixed idem insert subseq_render [of m R] show ?thesis by blast
qed

theorem transform_round_trip_witness:
  "render (transform raise_statement
      [Text '''', Def '''' [] ''def f():'' [Text ''    raise ValueError'']]) =
     ['''', ''@deal.raises(ValueError)'', ''def f():'', ''    raise ValueError'']
   \<and> transform raise_statement
       [Text '''', Def '''' [Attachment ''@deal.pre(lambda: True)'' []] ''def f():''
          [Text ''    return 1'']] =
       [Text '''', Def '''' [Attachment ''@deal.pre(lambda: True)'' []] ''def f():''
          [Text ''    return 1'']]
   \<and> transform raise_statement (transform raise_statement
       [Text '''', Def '''' [] ''def f():'' [Text ''    raise ValueError'']]) =
     transform raise_statement [Text '''', Def '''' [] ''def f():'' [Text ''    raise ValueError'']]"
proof -
  let ?body = "[Text ''    raise ValueError'']"
  let ?kept = "[Text '''', Def '''' [Attachment ''@deal.pre(lambda: True)'' []] ''def f():''
          [Text ''    return 1'']]"
  have given: "list_all (complete raise_statement) [Text ''''] \<and>
      list_all (complete raise_statement) ?body \<and> list_all (complete raise_statement) [] \<and>
      raised_errors raise_statement ?body = [''ValueError'']"
    by (simp add: raise_statement_def)
  have kept: "list_all (complete raise_statement) ?kept"
    by (simp add: raise_statement_def)
  note a = transform_round_trip [where R = raise_statement and before = "[Text '''']"
      and body = ?body and after = "[]" and e = "''ValueError''" and ind = "''''"
      and hdr = "''def f():''", THEN conjunct1, rule_format, OF given]
  note b = transform_round_trip [where R = raise_statement and m = ?kept,
      THEN conjunct2, THEN conjunct1, rule_format, OF kept]
  note c = transform_round_trip [where R = raise_statement
      and m = "[Text '''', Def '''' [] ''def f():'' ?body]",
      THEN conjunct2, THEN conjunct2, THEN conjunct1]
  from a have a': "render (transform raise_statement [Text '''', Def '''' [] ''def f():'' ?body]) =
     ['''', ''@deal.raises(ValueError)'', ''def f():'', ''    raise ValueError'']"
    by (simp add: render_def)
  from a' b c show ?thesis by (intro conjI)
qed



text \<open>
  Claim C10. When the list of contracts holds several HAS or PURE contracts, the marker
  rule checks the function against the declared set of the first of them and returns:
  the result is the check against that contract alone, and it is the same whatever
  contracts follow it.
\<close>

theorem CheckMarkers_first_only:
  assumes pre: "list_all (\<lambda>p. \<not> is_has_or_pure p) pre" and c: "is_has_or_pure c"
  shows "CheckMarkers X G (func\<lparr>f_contracts := pre @ c # rest\<rparr>) =
           CheckMarkers_check X G func (Has (declared_markers X c) None None)
       \<and> CheckMarkers X G (func\<lparr>f_contracts := pre @ c # rest\<rparr>) =
           CheckMarkers X G (func\<lparr>f_contracts := pre @ [c]\<rparr>)"
proof -
  have "find is_has_or_pure (pre @ c # more) = Some c" for more
    using pre c by (induction pre) simp_all
  then show ?thesis
    by (simp add: CheckMarkers_find CheckMarkers_check_contracts)
qed

theorem CheckMarkers_first_only_witness:
  "CheckMarkers sample_extractors sample_getattr (two_has 1) =
     CheckMarkers sample_extractors sample_getattr
       (sample_func ''f'' 1
          [sample_contract RAISES [] [] ''first'' no_validator,
           sample_contract HAS [Expr (PStr ''stdout'')] [] ''first'' no_validator])
   \<and> CheckMarkers sample_extractors sample_getattr (two_has 1) =
       ([\<lparr>e_code = 45, e_text = ''missed marker'', e_value = PStr ''write'', e_row = 3, e_col = 4\<rparr>,
         \<lparr>e_code = 40, e_text = ''missed marker'', e_value = PStr ''custom'', e_row = 4, e_col = 4\<rparr>],
        None)"
proof -
  let ?r = "sample_contract RAISES [] [] ''first'' no_validator"
  let ?c = "sample_contract HAS [Expr (PStr ''stdout'')] [] ''first'' no_validator"
  let ?l = "sample_contract HAS [Expr (PStr ''write''), Expr (PStr ''custom'')] [] ''first''
              no_validator"
  have pre: "list_all (\<lambda>p. \<not> is_has_or_pure p) [?r]"
    by (simp add: is_has_or_pure_def sample_contract_def)
  have c: "is_has_or_pure ?c"
    by (simp add: is_has_or_pure_def sample_contract_def)
  have f: "(sample_func ''f'' 1 [])\<lparr>f_contracts := [?r] @ ?c # [?l]\<rparr> = two_has 1"
    "(sample_func ''f'' 1 [])\<lparr>f_contracts := [?r] @ [?c]\<rparr> = sample_func ''f'' 1 [?r, ?c]"
    by (simp_all add: two_has_def sample_func_def)
  note t = CheckMarkers_first_only [OF pre c, where X = sample_extractors
      and G = sample_getattr and func = "sample_func ''f'' 1 []" and rest = "[?l]", unfolded f]
  have h: "CheckMarkers_check sample_extractors sample_getattr (sample_func ''f'' 1 [])
          (Has (declared_markers sample_extractors ?c) None None) =
       ([\<lparr>e_code = 45, e_text = ''missed marker'', e_value = PStr ''write'', e_row = 3, e_col = 4\<rparr>,
         \<lparr>e_code = 40, e_text = ''missed marker'', e_value = PStr ''custom'', e_row = 4, e_col = 4\<rparr>],
        None)"
    by (simp add: CheckMarkers_check_def declared_markers_def sample_contract_def
        sample_extractors_def sample_func_def sample_getattr_def marker_names_def
        gen_seq_def gen_return_def gen_yield_def codes_get_def codes_def)
  show ?thesis
    by (rule conjI [OF t [THEN conjunct2] trans [OF t [THEN conjunct1] h]])
qed

end
